theory Spec2Isabelle
  imports Complex_Main "HOL-Library.AList" "HOL-Library.Char_ord" "HOL-Library.List_Lexorder"
begin

section \<open>Filament dryer (mmu_dryer.py): data model\<close>

text \<open>
  The module is one class, \<open>FilamentDryer\<close>, driven by a host (the printer firmware).
  Every method is modelled as a function that takes the object and the host and returns
  the outcome together with the object and the host as the method leaves them: a Python
  exception keeps every assignment made before it was raised, so the state is returned
  on the error path as well.

  Numbers: Python floats are modelled as reals (no infinities, no NaN), exact except for
  the one subtraction whose rounding selects a branch, which is rounded to double
  precision (see below). Strings are byte lists; the case mappings and the whitespace
  test are the ASCII ones.
\<close>

subsection \<open>Python string helpers used by the constructor and the command handlers\<close>

text \<open>\<open>s.split(',')\<close>: never returns the empty list; \<open>''.split(',') = ['']\<close>.\<close>

fun str_split :: "char \<Rightarrow> string \<Rightarrow> string list" where
  "str_split c [] = [[]]"
| "str_split c (x # xs) =
     (if x = c then [] # str_split c xs
      else (case str_split c xs of
              w # ws \<Rightarrow> (x # w) # ws
            | [] \<Rightarrow> [[x]]))"

definition is_space :: "char \<Rightarrow> bool" where
  "is_space c = (let n = (of_char c :: nat) in (9 \<le> n \<and> n \<le> 13) \<or> (28 \<le> n \<and> n \<le> 32))"

definition str_strip :: "string \<Rightarrow> string" where
  "str_strip s = rev (dropWhile is_space (rev (dropWhile is_space s)))"

definition lower_char :: "char \<Rightarrow> char" where
  "lower_char c = (let n = (of_char c :: nat) in if 65 \<le> n \<and> n \<le> 90 then char_of (n + 32) else c)"

definition upper_char :: "char \<Rightarrow> char" where
  "upper_char c = (let n = (of_char c :: nat) in if 97 \<le> n \<and> n \<le> 122 then char_of (n - 32) else c)"

definition str_lower :: "string \<Rightarrow> string" where
  "str_lower s = map lower_char s"

definition str_upper :: "string \<Rightarrow> string" where
  "str_upper s = map upper_char s"

text \<open>\<open>int(x)\<close> on a float truncates towards zero.\<close>

definition py_int :: "real \<Rightarrow> int" where
  "py_int x = (if 0 \<le> x then \<lfloor>x\<rfloor> else \<lceil>x\<rceil>)"

subsection \<open>Rounding to double precision\<close>

text \<open>
  The timer callback truncates the difference of two floats and tests it modulo 300. The
  difference is rounded to the nearest double before \<open>int()\<close> sees it, and one unit in
  the last place decides between 299 and 300, so this subtraction is modelled with its
  rounding: \<open>fsub a b\<close> is the double nearest to \<open>a - b\<close>, ties going to the even
  significand. \<open>binade x\<close> is the power of two at or below \<open>x\<close> among the exponents
  of the format; below \<open>2^-1022\<close> the spacing stays \<open>2^-1074\<close>, as for the subnormal
  numbers. Overflow to infinity is not modelled.

  It is the only float operation of the module whose rounding selects a branch: the sign
  of \<open>end_time - eventtime\<close> is the same rounded or not, and the other operations produce
  numbers that are stored or printed. Those are kept exact.
\<close>

definition rne :: "real \<Rightarrow> int" where
  "rne t = (let f = \<lfloor>t\<rfloor>; r = t - of_int f
            in if r < 1 / 2 then f
               else if 1 / 2 < r then f + 1
               else if even f then f else f + 1)"

fun binade_up :: "nat \<Rightarrow> real \<Rightarrow> real \<Rightarrow> real" where
  "binade_up 0 b x = b"
| "binade_up (Suc n) b x = (if 2 * b \<le> x then binade_up n (2 * b) x else b)"

fun binade_down :: "nat \<Rightarrow> real \<Rightarrow> real \<Rightarrow> real" where
  "binade_down 0 b x = b"
| "binade_down (Suc n) b x = (if x < b then binade_down n (b / 2) x else b)"

definition binade :: "real \<Rightarrow> real" where
  "binade x = (if 1 \<le> x then binade_up 1023 1 x else binade_down 1022 1 x)"

definition fl :: "real \<Rightarrow> real" where
  "fl x = (if x = 0 then 0
           else (let u = binade \<bar>x\<bar> / 2 ^ 52 in u * of_int (rne (x / u))))"

definition fsub :: "real \<Rightarrow> real \<Rightarrow> real" where
  "fsub a b = fl (a - b)"

subsection \<open>The host: configuration, heaters, reactor, console\<close>

text \<open>
  The host objects are not part of the module. They are modelled by the interface the
  module consumes: a configuration section (\<open>get\<close>, \<open>getfloat\<close>), a heater registry
  (\<open>lookup_heater\<close>, which may fail) whose heaters carry a status with the keys
  \<open>temperature\<close> and \<open>target\<close> and accept \<open>set_temp\<close>, a reactor with a monotonic clock
  and timers, an optional idle-timeout object, and the console that receives the
  responses. Heater and timer objects live in stores addressed by references.
\<close>

record config =
  get_name :: string
  get :: "string \<rightharpoonup> string"
  getfloat :: "string \<rightharpoonup> real"

record heater_obj =
  temperature :: real
  target :: real

text \<open>
  The payload of a console line. The format strings print the numbers with \<open>%.1f\<close>;
  the model keeps the numbers that are passed to the format string.
\<close>

datatype text_msg =
    CycleComplete
  | DryingStopped
  | DryingStarted real real
  | DryingProgress real real real real
  | NoCycle
  | StatusIdle
  | StatusActive real real real real real real
  | NoPresets
  | PresetListing "(string \<times> real \<times> real) list"

datatype console_line = Respond_info text_msg | M118 text_msg

record host =
  lookup_heater :: "string \<rightharpoonup> nat"
  heater_objs :: "nat \<Rightarrow> heater_obj"
  clock :: "nat \<Rightarrow> real"
  clock_reads :: nat
  idle_timeout :: "string option"
  timers :: "nat \<rightharpoonup> real"
  next_timer :: nat
  responses :: "console_line list"
  commands :: "string list"

text \<open>\<open>reactor.monotonic()\<close>: each call takes the next reading of the clock.\<close>

definition monotonic :: "host \<Rightarrow> real \<times> host" where
  "monotonic h = (clock h (clock_reads h), h\<lparr>clock_reads := Suc (clock_reads h)\<rparr>)"

definition register_timer :: "real \<Rightarrow> host \<Rightarrow> nat \<times> host" where
  "register_timer waketime h =
     (next_timer h, h\<lparr>timers := (timers h)(next_timer h \<mapsto> waketime), next_timer := Suc (next_timer h)\<rparr>)"

definition unregister_timer :: "nat \<Rightarrow> host \<Rightarrow> host" where
  "unregister_timer t h = h\<lparr>timers := (timers h)(t := None)\<rparr>"

definition set_temp :: "nat \<Rightarrow> real \<Rightarrow> host \<Rightarrow> host" where
  "set_temp r degrees h = h\<lparr>heater_objs := (heater_objs h)(r := (heater_objs h r)\<lparr>target := degrees\<rparr>)\<rparr>"

definition respond_info :: "text_msg \<Rightarrow> host \<Rightarrow> host" where
  "respond_info m h = h\<lparr>responses := responses h @ [Respond_info m]\<rparr>"

definition run_script_from_command :: "console_line \<Rightarrow> host \<Rightarrow> host" where
  "run_script_from_command script h = h\<lparr>responses := responses h @ [script]\<rparr>"

definition register_command :: "string \<Rightarrow> host \<Rightarrow> host" where
  "register_command c h = h\<lparr>commands := commands h @ [c]\<rparr>"

subsection \<open>The controller object\<close>

record settings =
  temp :: real
  preset_duration :: real

record FilamentDryer =
  name :: string
  heater_name :: string
  heater :: "nat option"
  is_drying :: bool
  target_temp :: real
  duration :: real
  start_time :: real
  end_time :: real
  timer_handler :: "nat option"
  original_target :: real
  presets :: "(string \<times> settings) list"

datatype error =
    AlreadyActive
  | HeaterNotFound string
  | UnknownPreset string
  | MissingParameters
  | ZeroDivisionError
  | TemperatureRefused real

datatype waketime = NEVER | At real

record gcmd =
  PRESET :: "string option"
  TEMP :: "real option"
  DURATION :: "real option"

datatype pyval = PyBool bool | PyFloat real

section \<open>The methods\<close>

subsection \<open>Constructor\<close>

text \<open>
  One round of the loop over the preset names. The dictionary \<open>self.presets\<close> is an
  association list in insertion order; assigning to an existing key replaces its value
  in place.
\<close>

definition load_preset :: "config \<Rightarrow> string \<Rightarrow> (string \<times> settings) list \<Rightarrow> (string \<times> settings) list" where
  "load_preset cfg preset_name ps =
     (let n = str_strip preset_name in
      if n \<noteq> [] then
        (case (getfloat cfg (''preset_'' @ n @ ''_temp''),
               getfloat cfg (''preset_'' @ n @ ''_duration'')) of
           (Some t, Some du) \<Rightarrow>
             AList.update (str_lower n) \<lparr>temp = t, preset_duration = du * 3600\<rparr> ps
         | _ \<Rightarrow> ps)
      else ps)"

definition init :: "config \<Rightarrow> host \<Rightarrow> FilamentDryer \<times> host" where
  "init cfg h =
     (let preset_names = str_split CHR '','' (case get cfg ''presets'' of None \<Rightarrow> [] | Some v \<Rightarrow> v);
          d = \<lparr>name = get_name cfg,
               heater_name = (case get cfg ''heater'' of None \<Rightarrow> ''heater_box'' | Some v \<Rightarrow> v),
               heater = None,
               is_drying = False,
               target_temp = 0,
               duration = 0,
               start_time = 0,
               end_time = 0,
               timer_handler = None,
               original_target = 0,
               presets = fold (load_preset cfg) preset_names []\<rparr>;
          h1 = register_command ''START_FILAMENT_DRYING'' h;
          h2 = register_command ''STOP_FILAMENT_DRYING'' h1;
          h3 = register_command ''DRYER_STATUS'' h2;
          h4 = register_command ''LIST_DRYER_PRESETS'' h3
      in (d, h4))"

subsection \<open>Heater lookup and timer\<close>

definition get_heater :: "FilamentDryer \<Rightarrow> host \<Rightarrow> (error + nat) \<times> FilamentDryer \<times> host" where
  "get_heater d h =
     (case heater d of
        Some r \<Rightarrow> (Inr r, d, h)
      | None \<Rightarrow>
          (case lookup_heater h (heater_name d) of
             None \<Rightarrow> (Inl (HeaterNotFound (heater_name d)), d, h)
           | Some r \<Rightarrow> (Inr r, d\<lparr>heater := Some r\<rparr>, h)))"

definition stop_timer :: "FilamentDryer \<Rightarrow> host \<Rightarrow> FilamentDryer \<times> host" where
  "stop_timer d h =
     (case timer_handler d of
        None \<Rightarrow> (d, h)
      | Some t \<Rightarrow> (d\<lparr>timer_handler := None\<rparr>, unregister_timer t h))"

subsection \<open>Stop, tick, start\<close>

definition stop_drying :: "FilamentDryer \<Rightarrow> host \<Rightarrow> (error + unit) \<times> FilamentDryer \<times> host" where
  "stop_drying d h =
     (if \<not> is_drying d then (Inr (), d, h)
      else
        (case stop_timer d h of (d1, h1) \<Rightarrow>
           (case get_heater d1 h1 of
              (Inl e, d2, h2) \<Rightarrow> (Inl e, d2, h2)
            | (Inr r, d2, h2) \<Rightarrow>
                (let h3 = set_temp r (original_target d2) h2;
                     d3 = d2\<lparr>is_drying := False, target_temp := 0, duration := 0,
                             start_time := 0, end_time := 0\<rparr>;
                     h4 = respond_info DryingStopped h3
                 in (Inr (), d3, h4)))))"

definition timer_callback :: "FilamentDryer \<Rightarrow> host \<Rightarrow> real \<Rightarrow> (error + waketime) \<times> FilamentDryer \<times> host" where
  "timer_callback d h eventtime =
     (if \<not> is_drying d then (Inr NEVER, d, h)
      else
        (let remaining = end_time d - eventtime in
         if remaining \<le> 0 then
           (case stop_drying d (respond_info CycleComplete h) of
              (Inl e, d1, h1) \<Rightarrow> (Inl e, d1, h1)
            | (Inr u, d1, h1) \<Rightarrow> (Inr NEVER, d1, h1))
         else if py_int (fsub eventtime (start_time d)) mod 300 = 0 then
           (let remaining_hours = remaining / 3600;
                elapsed_hours = fsub eventtime (start_time d) / 3600
            in if duration d = 0 then (Inl ZeroDivisionError, d, h)
               else
                 (let progress = (fsub eventtime (start_time d) / duration d) * 100 in
                  case get_heater d h of
                    (Inl e, d1, h1) \<Rightarrow> (Inl e, d1, h1)
                  | (Inr r, d1, h1) \<Rightarrow>
                      (let current_temp = temperature (heater_objs h1 r);
                           msg = DryingProgress current_temp progress elapsed_hours remaining_hours
                       in (Inr (At (eventtime + 1)), d1, run_script_from_command (M118 msg) h1))))
         else (Inr (At (eventtime + 1)), d, h)))"

definition start_drying :: "real \<Rightarrow> real \<Rightarrow> FilamentDryer \<Rightarrow> host \<Rightarrow> (error + unit) \<times> FilamentDryer \<times> host" where
  "start_drying tmp dur d h =
     (if is_drying d then (Inl AlreadyActive, d, h)
      else
        (case get_heater d h of
           (Inl e, d1, h1) \<Rightarrow> (Inl e, d1, h1)
         | (Inr r, d1, h1) \<Rightarrow>
             (case monotonic h1 of (t1, h2) \<Rightarrow>
                (let d2 = d1\<lparr>original_target := target (heater_objs h2 r)\<rparr>;
                     h3 = (case idle_timeout h2 of
                             None \<Rightarrow> h2
                           | Some st \<Rightarrow> h2\<lparr>idle_timeout := Some ''Printing''\<rparr>);
                     h4 = set_temp r tmp h3;
                     d3 = d2\<lparr>target_temp := tmp, duration := dur\<rparr>
                 in case monotonic h4 of (t2, h5) \<Rightarrow>
                      (let d4 = d3\<lparr>start_time := t2\<rparr>;
                           d5 = d4\<lparr>end_time := start_time d4 + dur, is_drying := True\<rparr>
                       in case monotonic h5 of (t3, h6) \<Rightarrow>
                            (case register_timer (t3 + 1) h6 of (th, h7) \<Rightarrow>
                               (let d6 = d5\<lparr>timer_handler := Some th\<rparr>;
                                    hours = dur / 3600
                                in (Inr (), d6, respond_info (DryingStarted tmp hours) h7))))))))"

subsection \<open>Start on a heater that may refuse the temperature\<close>

text \<open>
  \<open>heater.set_temp\<close> belongs to the host, and a heater with temperature limits raises
  for a value outside them. \<open>accepts r degrees\<close> says whether heater \<open>r\<close> takes the
  value; \<open>within_limits\<close> is the usual rule (zero switches the heater off and is always
  taken). \<open>start_drying\<close> above is \<open>_start_drying\<close> on a heater that takes the value;
  \<open>start_drying_checked\<close> is the same method with the refusal, which comes after the
  heater has been cached, \<open>original_target\<close> overwritten and the idle timeout
  signalled.
\<close>

definition within_limits :: "real \<Rightarrow> real \<Rightarrow> nat \<Rightarrow> real \<Rightarrow> bool" where
  "within_limits min_temp max_temp r degrees =
     (degrees = 0 \<or> (min_temp \<le> degrees \<and> degrees \<le> max_temp))"

definition set_temp_checked :: "(nat \<Rightarrow> real \<Rightarrow> bool) \<Rightarrow> nat \<Rightarrow> real \<Rightarrow> host \<Rightarrow> error + host" where
  "set_temp_checked accepts r degrees h =
     (if accepts r degrees then Inr (set_temp r degrees h) else Inl (TemperatureRefused degrees))"

definition start_drying_checked ::
  "(nat \<Rightarrow> real \<Rightarrow> bool) \<Rightarrow> real \<Rightarrow> real \<Rightarrow> FilamentDryer \<Rightarrow> host \<Rightarrow> (error + unit) \<times> FilamentDryer \<times> host" where
  "start_drying_checked accepts tmp dur d h =
     (if is_drying d then (Inl AlreadyActive, d, h)
      else
        (case get_heater d h of
           (Inl e, d1, h1) \<Rightarrow> (Inl e, d1, h1)
         | (Inr r, d1, h1) \<Rightarrow>
             (case monotonic h1 of (t1, h2) \<Rightarrow>
                (let d2 = d1\<lparr>original_target := target (heater_objs h2 r)\<rparr>;
                     h3 = (case idle_timeout h2 of
                             None \<Rightarrow> h2
                           | Some st \<Rightarrow> h2\<lparr>idle_timeout := Some ''Printing''\<rparr>)
                 in case set_temp_checked accepts r tmp h3 of
                      Inl e \<Rightarrow> (Inl e, d2, h3)
                    | Inr h4 \<Rightarrow>
                        (let d3 = d2\<lparr>target_temp := tmp, duration := dur\<rparr>
                         in case monotonic h4 of (t2, h5) \<Rightarrow>
                              (let d4 = d3\<lparr>start_time := t2\<rparr>;
                                   d5 = d4\<lparr>end_time := start_time d4 + dur, is_drying := True\<rparr>
                               in case monotonic h5 of (t3, h6) \<Rightarrow>
                                    (case register_timer (t3 + 1) h6 of (th, h7) \<Rightarrow>
                                       (let d6 = d5\<lparr>timer_handler := Some th\<rparr>;
                                            hours = dur / 3600
                                        in (Inr (), d6,
                                            respond_info (DryingStarted tmp hours) h7)))))))))"

subsection \<open>Command handlers and the status query\<close>

definition cmd_START_FILAMENT_DRYING :: "gcmd \<Rightarrow> FilamentDryer \<Rightarrow> host \<Rightarrow> (error + unit) \<times> FilamentDryer \<times> host" where
  "cmd_START_FILAMENT_DRYING g d h =
     (case (if PRESET g = Some [] then None else PRESET g) of
        Some p \<Rightarrow>
          (let preset = str_lower p in
           case map_of (presets d) preset of
             None \<Rightarrow> (Inl (UnknownPreset preset), d, h)
           | Some s \<Rightarrow> start_drying (temp s) (preset_duration s) d h)
      | None \<Rightarrow>
          (case (TEMP g, DURATION g) of
             (Some t, Some du) \<Rightarrow> start_drying t (du * 3600) d h
           | _ \<Rightarrow> (Inl MissingParameters, d, h)))"

definition cmd_STOP_FILAMENT_DRYING :: "FilamentDryer \<Rightarrow> host \<Rightarrow> (error + unit) \<times> FilamentDryer \<times> host" where
  "cmd_STOP_FILAMENT_DRYING d h =
     (if \<not> is_drying d then (Inr (), d, respond_info NoCycle h)
      else stop_drying d h)"

definition cmd_DRYER_STATUS :: "FilamentDryer \<Rightarrow> host \<Rightarrow> (error + unit) \<times> FilamentDryer \<times> host" where
  "cmd_DRYER_STATUS d h =
     (if \<not> is_drying d then (Inr (), d, respond_info StatusIdle h)
      else
        (case monotonic h of (current_time, h1) \<Rightarrow>
           (let elapsed = current_time - start_time d;
                remaining = end_time d - current_time;
                elapsed_hours = elapsed / 3600;
                remaining_hours = remaining / 3600;
                total_hours = duration d / 3600
            in if duration d = 0 then (Inl ZeroDivisionError, d, h1)
               else
                 (let progress = (elapsed / duration d) * 100 in
                  case get_heater d h1 of
                    (Inl e, d1, h2) \<Rightarrow> (Inl e, d1, h2)
                  | (Inr r, d1, h2) \<Rightarrow>
                      (let current_temp = temperature (heater_objs h2 r)
                       in (Inr (), d1,
                           respond_info (StatusActive (target_temp d1) current_temp total_hours
                                           elapsed_hours remaining_hours progress) h2))))))"

text \<open>
  \<open>sorted(self.presets.items())\<close> compares (name, settings) pairs; the names are the
  keys of a dictionary, hence distinct, so the order is the order of the names.
\<close>

definition cmd_LIST_DRYER_PRESETS :: "FilamentDryer \<Rightarrow> host \<Rightarrow> (error + unit) \<times> FilamentDryer \<times> host" where
  "cmd_LIST_DRYER_PRESETS d h =
     (if presets d = [] then (Inr (), d, respond_info NoPresets h)
      else
        (let response = map (\<lambda>(nm, s). (str_upper nm, temp s, preset_duration s / 3600))
                            (sort_key fst (presets d))
         in (Inr (), d, respond_info (PresetListing response) h)))"

definition get_status :: "FilamentDryer \<Rightarrow> real \<Rightarrow> (string \<rightharpoonup> pyval) \<times> FilamentDryer" where
  "get_status d eventtime =
     (let status = [''is_drying'' \<mapsto> PyBool (is_drying d),
                    ''target_temp'' \<mapsto> PyFloat (target_temp d)]
      in if is_drying d then
           (let elapsed = eventtime - start_time d;
                remaining = end_time d - eventtime
            in (status ++ [''duration'' \<mapsto> PyFloat (duration d),
                           ''elapsed'' \<mapsto> PyFloat elapsed,
                           ''remaining'' \<mapsto> PyFloat remaining,
                           ''progress'' \<mapsto> PyFloat (if duration d > 0
                                                     then (elapsed / duration d) * 100 else 0)],
                d))
         else (status, d))"

section \<open>Example configuration and host\<close>

definition example_config :: config where
  "example_config =
     \<lparr>get_name = ''mmu_dryer'',
      get = [''presets'' \<mapsto> ''PLA, petg ,abs''],
      getfloat = [''preset_PLA_temp'' \<mapsto> 45, ''preset_PLA_duration'' \<mapsto> 6,
                  ''preset_petg_temp'' \<mapsto> 70, ''preset_petg_duration'' \<mapsto> 4,
                  ''preset_abs_temp'' \<mapsto> 80, ''preset_abs_duration'' \<mapsto> 2]\<rparr>"

definition petg_config :: config where
  "petg_config =
     \<lparr>get_name = ''mmu_dryer'',
      get = [''presets'' \<mapsto> ''petg''],
      getfloat = [''preset_petg_temp'' \<mapsto> 70, ''preset_petg_duration'' \<mapsto> 4]\<rparr>"

definition example_host :: host where
  "example_host =
     \<lparr>lookup_heater = [''heater_box'' \<mapsto> 0],
      heater_objs = (\<lambda>r. \<lparr>temperature = 20, target = 5\<rparr>),
      clock = (\<lambda>n. 1000),
      clock_reads = 0,
      idle_timeout = Some ''Ready'',
      timers = Map.empty,
      next_timer = 0,
      responses = [],
      commands = []\<rparr>"

definition idle_dryer :: FilamentDryer where
  "idle_dryer = fst (init example_config example_host)"

text \<open>The dryer after \<open>START_FILAMENT_DRYING TEMP=50 DURATION=1\<close> on the example host.\<close>

definition drying_dryer :: FilamentDryer where
  "drying_dryer =
     fst (snd (cmd_START_FILAMENT_DRYING \<lparr>PRESET = None, TEMP = Some 50, DURATION = Some 1\<rparr>
                 idle_dryer example_host))"

text \<open>The dryer after \<open>START_FILAMENT_DRYING TEMP=50 DURATION=-1\<close> on the example host.\<close>

definition negative_dryer :: FilamentDryer where
  "negative_dryer =
     fst (snd (cmd_START_FILAMENT_DRYING \<lparr>PRESET = None, TEMP = Some 50, DURATION = Some (- 1)\<rparr>
                 idle_dryer example_host))"

text \<open>The dryer after \<open>START_FILAMENT_DRYING TEMP=50 DURATION=0\<close> on the example host.\<close>

definition zero_dryer :: FilamentDryer where
  "zero_dryer =
     fst (snd (cmd_START_FILAMENT_DRYING \<lparr>PRESET = None, TEMP = Some 50, DURATION = Some 0\<rparr>
                 idle_dryer example_host))"

definition petg_dryer :: FilamentDryer where
  "petg_dryer = fst (init petg_config example_host)"





section \<open>Reachable controller states and the cycle invariant\<close>

text \<open>
  The states of the controller that the program can be in: the constructor's result, and
  from there any method or command handler, on any host (the host may change between
  calls), whether the call returns or raises.
\<close>

inductive reachable :: "FilamentDryer \<Rightarrow> bool" where
  reach_init: "reachable (fst (init cfg h))"
| reach_start: "reachable d \<Longrightarrow> reachable (fst (snd (start_drying tmp dur d h)))"
| reach_stop: "reachable d \<Longrightarrow> reachable (fst (snd (stop_drying d h)))"
| reach_tick: "reachable d \<Longrightarrow> reachable (fst (snd (timer_callback d h now)))"
| reach_cmd_start: "reachable d \<Longrightarrow> reachable (fst (snd (cmd_START_FILAMENT_DRYING g d h)))"
| reach_cmd_stop: "reachable d \<Longrightarrow> reachable (fst (snd (cmd_STOP_FILAMENT_DRYING d h)))"
| reach_cmd_status: "reachable d \<Longrightarrow> reachable (fst (snd (cmd_DRYER_STATUS d h)))"
| reach_cmd_list: "reachable d \<Longrightarrow> reachable (fst (snd (cmd_LIST_DRYER_PRESETS d h)))"
| reach_get_status: "reachable d \<Longrightarrow> reachable (snd (get_status d now))"

definition cycle_inv :: "FilamentDryer \<Rightarrow> bool" where
  "cycle_inv d \<longleftrightarrow>
     ((timer_handler d \<noteq> None) = is_drying d) \<and>
     (is_drying d \<longrightarrow> heater d \<noteq> None \<and> end_time d = start_time d + duration d) \<and>
     (\<not> is_drying d \<longrightarrow> target_temp d = 0 \<and> duration d = 0 \<and> start_time d = 0 \<and> end_time d = 0) \<and>
     distinct (map fst (presets d))"

section \<open>Properties\<close>

subsection \<open>What each method leaves behind\<close>

lemma get_heater_Inl:
  "get_heater d h = (Inl e, d', h') \<Longrightarrow> d' = d \<and> h' = h \<and> heater d = None"
  by (auto simp: get_heater_def split: option.splits)

lemma get_heater_Inr:
  "get_heater d h = (Inr r, d', h') \<Longrightarrow> d' = d\<lparr>heater := Some r\<rparr> \<and> h' = h"
  by (auto simp: get_heater_def split: option.splits)

lemma get_heater_cached: "heater d = Some r \<Longrightarrow> get_heater d h = (Inr r, d, h)"
  by (simp add: get_heater_def)

lemma get_heater_lookup:
  "heater d = None \<Longrightarrow> lookup_heater h (heater_name d) = Some r \<Longrightarrow>
   get_heater d h = (Inr r, d\<lparr>heater := Some r\<rparr>, h)"
  by (simp add: get_heater_def)

lemma stop_drying_cached:
  assumes "is_drying d" and "heater d = Some r"
  shows "stop_drying d h =
           (Inr (),
            d\<lparr>timer_handler := None, is_drying := False, target_temp := 0, duration := 0,
              start_time := 0, end_time := 0\<rparr>,
            respond_info DryingStopped
              (set_temp r (original_target d)
                 (case timer_handler d of None \<Rightarrow> h | Some t \<Rightarrow> unregister_timer t h)))"
  using assms
  by (simp add: stop_drying_def stop_timer_def get_heater_def split: option.splits)

lemma start_drying_Inl:
  "start_drying tmp dur d h = (Inl e, d', h') \<Longrightarrow> d' = d \<and> h' = h"
  by (auto simp: start_drying_def Let_def split: if_splits prod.splits sum.splits
           dest: get_heater_Inl)

lemma start_drying_ok:
  assumes "\<not> is_drying d" and "get_heater d h = (Inr r, d1, h1)"
  shows "start_drying tmp dur d h =
           (Inr (),
            d\<lparr>heater := Some r, original_target := target (heater_objs h r),
              target_temp := tmp, duration := dur,
              start_time := clock h (Suc (clock_reads h)),
              end_time := clock h (Suc (clock_reads h)) + dur,
              is_drying := True, timer_handler := Some (next_timer h)\<rparr>,
            respond_info (DryingStarted tmp (dur / 3600))
              (snd (register_timer (clock h (Suc (Suc (clock_reads h))) + 1)
                 (snd (monotonic (snd (monotonic
                    (set_temp r tmp
                       ((case idle_timeout h of None \<Rightarrow> snd (monotonic h)
                         | Some st \<Rightarrow> (snd (monotonic h))\<lparr>idle_timeout := Some ''Printing''\<rparr>))))))))))"
  using assms get_heater_Inr[OF assms(2)]
  by (simp add: start_drying_def Let_def monotonic_def register_timer_def set_temp_def
           split: option.splits)

subsection \<open>The invariant holds in every reachable state\<close>

lemma distinct_fold_load_preset:
  "distinct (map fst ps) \<Longrightarrow> distinct (map fst (fold (load_preset cfg) ns ps))"
proof (induction ns arbitrary: ps)
  case Nil
  then show ?case by simp
next
  case (Cons n ns)
  have "distinct (map fst (load_preset cfg n ps))"
    using Cons.prems
    by (auto simp: load_preset_def Let_def distinct_update split: option.splits)
  then show ?case using Cons.IH by simp
qed

lemma cycle_inv_init: "cycle_inv (fst (init cfg h))"
  by (simp add: init_def Let_def cycle_inv_def distinct_fold_load_preset)

lemma cycle_inv_start: "cycle_inv d \<Longrightarrow> cycle_inv (fst (snd (start_drying tmp dur d h)))"
proof (cases "start_drying tmp dur d h")
  case (fields res d' h')
  assume inv: "cycle_inv d"
  show ?thesis
  proof (cases res)
    case (Inl e)
    with fields inv show ?thesis by (auto dest: start_drying_Inl)
  next
    case (Inr u)
    with fields have nd: "\<not> is_drying d"
      by (auto simp: start_drying_def split: if_splits)
    obtain x d1 h1 where gh: "get_heater d h = (x, d1, h1)" by (cases "get_heater d h")
    show ?thesis
    proof (cases x)
      case (Inl e)
      with gh nd fields Inr show ?thesis by (simp add: start_drying_def)
    next
      case r: (Inr r)
      with gh nd inv show ?thesis
        by (simp add: start_drying_ok cycle_inv_def)
    qed
  qed
qed

lemma cycle_inv_stop: "cycle_inv d \<Longrightarrow> cycle_inv (fst (snd (stop_drying d h)))"
proof (cases "is_drying d")
  case False
  assume "cycle_inv d"
  with False show ?thesis by (simp add: stop_drying_def)
next
  case True
  assume inv: "cycle_inv d"
  with True obtain r where "heater d = Some r" by (auto simp: cycle_inv_def)
  with True inv show ?thesis by (simp add: stop_drying_cached cycle_inv_def)
qed

lemma cycle_inv_tick: "cycle_inv d \<Longrightarrow> cycle_inv (fst (snd (timer_callback d h now)))"
proof (cases "is_drying d")
  case False
  assume "cycle_inv d"
  with False show ?thesis by (simp add: timer_callback_def)
next
  case True
  assume inv: "cycle_inv d"
  with True obtain r where r: "heater d = Some r" by (auto simp: cycle_inv_def)
  with True inv show ?thesis
    by (simp add: timer_callback_def Let_def stop_drying_cached get_heater_cached cycle_inv_def)
qed

lemma cycle_inv_cmd_start:
  "cycle_inv d \<Longrightarrow> cycle_inv (fst (snd (cmd_START_FILAMENT_DRYING g d h)))"
  by (auto simp: cmd_START_FILAMENT_DRYING_def Let_def cycle_inv_start
           split: option.splits)

lemma cycle_inv_cmd_stop:
  "cycle_inv d \<Longrightarrow> cycle_inv (fst (snd (cmd_STOP_FILAMENT_DRYING d h)))"
  by (simp add: cmd_STOP_FILAMENT_DRYING_def cycle_inv_stop)

lemma cycle_inv_cmd_status:
  "cycle_inv d \<Longrightarrow> cycle_inv (fst (snd (cmd_DRYER_STATUS d h)))"
proof (cases "is_drying d")
  case False
  assume "cycle_inv d"
  with False show ?thesis by (simp add: cmd_DRYER_STATUS_def)
next
  case True
  assume inv: "cycle_inv d"
  with True obtain r where r: "heater d = Some r" by (auto simp: cycle_inv_def)
  with True inv show ?thesis
    by (simp add: cmd_DRYER_STATUS_def Let_def get_heater_cached split: prod.splits)
qed

lemma cycle_inv_cmd_list:
  "cycle_inv d \<Longrightarrow> cycle_inv (fst (snd (cmd_LIST_DRYER_PRESETS d h)))"
  by (simp add: cmd_LIST_DRYER_PRESETS_def Let_def)

lemma get_status_pure: "snd (get_status d now) = d"
  by (simp add: get_status_def Let_def)

lemma reachable_cycle_inv: "reachable d \<Longrightarrow> cycle_inv d"
proof (induction rule: reachable.induct)
  case (reach_init cfg h)
  show ?case by (rule cycle_inv_init)
next
  case (reach_start d tmp dur h)
  then show ?case by (simp add: cycle_inv_start)
next
  case (reach_stop d h)
  then show ?case by (simp add: cycle_inv_stop)
next
  case (reach_tick d h now)
  then show ?case by (simp add: cycle_inv_tick)
next
  case (reach_cmd_start d g h)
  then show ?case by (simp add: cycle_inv_cmd_start)
next
  case (reach_cmd_stop d h)
  then show ?case by (simp add: cycle_inv_cmd_stop)
next
  case (reach_cmd_status d h)
  then show ?case by (simp add: cycle_inv_cmd_status)
next
  case (reach_cmd_list d h)
  then show ?case by (simp add: cycle_inv_cmd_list)
next
  case (reach_get_status d now)
  then show ?case by (simp add: get_status_pure)
qed

subsection \<open>The example states\<close>

lemma idle_dryer_eq:
  "idle_dryer =
     \<lparr>name = ''mmu_dryer'', heater_name = ''heater_box'', heater = None, is_drying = False,
      target_temp = 0, duration = 0, start_time = 0, end_time = 0, timer_handler = None,
      original_target = 0,
      presets = [(''pla'', \<lparr>temp = 45, preset_duration = 21600\<rparr>),
                 (''petg'', \<lparr>temp = 70, preset_duration = 14400\<rparr>),
                 (''abs'', \<lparr>temp = 80, preset_duration = 7200\<rparr>)]\<rparr>"
  by (simp add: idle_dryer_def init_def example_config_def load_preset_def str_strip_def
        is_space_def str_lower_def lower_char_def char_of_def bit_0)

lemma started_eq:
  "fst (snd (cmd_START_FILAMENT_DRYING \<lparr>PRESET = None, TEMP = Some 50, DURATION = Some x\<rparr>
               idle_dryer example_host)) =
     idle_dryer\<lparr>heater := Some 0, original_target := 5, target_temp := 50,
       duration := x * 3600, start_time := 1000, end_time := 1000 + x * 3600,
       is_drying := True, timer_handler := Some 0\<rparr>"
  by (simp add: cmd_START_FILAMENT_DRYING_def idle_dryer_eq
        start_drying_ok[OF _ get_heater_lookup] example_host_def)

lemma reachable_idle_dryer: "reachable idle_dryer"
  unfolding idle_dryer_def by (rule reach_init)

lemma reachable_drying_dryer: "reachable drying_dryer"
  unfolding drying_dryer_def by (rule reach_cmd_start[OF reachable_idle_dryer])

lemma reachable_negative_dryer: "reachable negative_dryer"
  unfolding negative_dryer_def by (rule reach_cmd_start[OF reachable_idle_dryer])

lemma reachable_zero_dryer: "reachable zero_dryer"
  unfolding zero_dryer_def by (rule reach_cmd_start[OF reachable_idle_dryer])





subsection \<open>Rounding and truncation\<close>


lemma binade_down_numeral:
  "binade_down (numeral k) b x = (if x < b then binade_down (pred_numeral k) (b / 2) x else b)"
  by (simp add: numeral_eq_Suc)





subsection \<open>Start on a heater with limits\<close>

lemma start_drying_checked_accepted:
  assumes "\<And>r. accepts r tmp"
  shows "start_drying_checked accepts tmp dur d h = start_drying tmp dur d h"
proof (cases "is_drying d")
  case True
  then show ?thesis by (simp add: start_drying_checked_def start_drying_def)
next
  case False
  obtain x d1 h1 where gh: "get_heater d h = (x, d1, h1)" by (cases "get_heater d h")
  show ?thesis
  proof (cases x)
    case (Inl e)
    with False gh show ?thesis by (simp add: start_drying_checked_def start_drying_def)
  next
    case (Inr r)
    with False gh assms[of r] show ?thesis
      by (simp add: start_drying_checked_def start_drying_def set_temp_checked_def)
  qed
qed

lemma start_drying_checked_refused:
  assumes "\<not> is_drying d" and "get_heater d h = (Inr r, d1, h1)" and "\<not> accepts r tmp"
  shows "start_drying_checked accepts tmp dur d h =
           (Inl (TemperatureRefused tmp),
            d\<lparr>heater := Some r, original_target := target (heater_objs h r)\<rparr>,
            (case idle_timeout h of
               None \<Rightarrow> h\<lparr>clock_reads := Suc (clock_reads h)\<rparr>
             | Some st \<Rightarrow> h\<lparr>clock_reads := Suc (clock_reads h),
                              idle_timeout := Some ''Printing''\<rparr>))"
proof -
  from get_heater_Inr[OF assms(2)] have g: "get_heater d h = (Inr r, d\<lparr>heater := Some r\<rparr>, h)"
    using assms(2) by simp
  show ?thesis
  proof (cases "idle_timeout h")
    case None
    with assms(1,3) g show ?thesis
      by (simp add: start_drying_checked_def set_temp_checked_def monotonic_def)
  next
    case (Some st)
    with assms(1,3) g show ?thesis
      by (simp add: start_drying_checked_def set_temp_checked_def monotonic_def)
  qed
qed

lemma start_drying_checked_started:
  assumes "\<not> is_drying d" and "get_heater d h = (Inr r, d1, h1)" and "accepts r tmp"
  shows "fst (start_drying_checked accepts tmp dur d h) = Inr ()"
  using assms
  by (simp add: start_drying_checked_def set_temp_checked_def monotonic_def register_timer_def
        Let_def)

section \<open>The claims\<close>

text \<open>
  C1. Whenever the timer callback runs in a reachable state with \<open>is_drying\<close> true and
  \<open>eventtime\<close> at or past \<open>end_time\<close>, it reports completion, does exactly what
  \<open>_stop_drying\<close> does after that report (the timer is unregistered and forgotten, the
  heater target is set to \<open>original_target\<close>, \<open>is_drying\<close> becomes false and
  \<open>target_temp\<close>, \<open>duration\<close>, \<open>start_time\<close>, \<open>end_time\<close> become zero, the stop
  message is sent) and returns \<open>NEVER\<close>.
\<close>

theorem tick_completion:
  assumes "reachable d" and "is_drying d" and "end_time d \<le> now"
  shows "\<exists>r t. heater d = Some r \<and> timer_handler d = Some t \<and>
           timer_callback d h now =
             (Inr NEVER,
              d\<lparr>timer_handler := None, is_drying := False, target_temp := 0, duration := 0,
                start_time := 0, end_time := 0\<rparr>,
              h\<lparr>timers := (timers h)(t := None),
                heater_objs := (heater_objs h)(r := (heater_objs h r)\<lparr>target := original_target d\<rparr>),
                responses := responses h @ [Respond_info CycleComplete, Respond_info DryingStopped]\<rparr>) \<and>
           stop_drying d (respond_info CycleComplete h) =
             (Inr (), snd (timer_callback d h now))"
proof -
  from assms(1) have inv: "cycle_inv d" by (rule reachable_cycle_inv)
  with assms(2) obtain r t where r: "heater d = Some r" and t: "timer_handler d = Some t"
    by (auto simp: cycle_inv_def)
  from assms(2,3) r t show ?thesis
    by (simp add: timer_callback_def Let_def stop_drying_cached respond_info_def
          set_temp_def unregister_timer_def)
qed

theorem tick_completion_witness:
  "reachable drying_dryer \<and> is_drying drying_dryer \<and> end_time drying_dryer \<le> 4600 \<and>
   fst (timer_callback drying_dryer example_host 4600) = Inr NEVER \<and>
   \<not> is_drying (fst (snd (timer_callback drying_dryer example_host 4600))) \<and>
   target (heater_objs (snd (snd (timer_callback drying_dryer example_host 4600))) 0) = 5"
proof -
  have a: "is_drying drying_dryer" and b: "end_time drying_dryer \<le> 4600"
    and c: "heater drying_dryer = Some 0" and e: "original_target drying_dryer = 5"
    by (simp_all add: drying_dryer_def started_eq)
  from tick_completion[OF reachable_drying_dryer a b, of example_host] c e a b
  show ?thesis
    by (auto simp: reachable_drying_dryer)
qed

text \<open>
  C2, as the code has it. In a state with \<open>is_drying\<close> true, \<open>_start_drying\<close> raises
  "already in progress" and leaves the controller and the host (heater target included) as
  they were. A start that raises because the heater is not found has changed nothing
  either. A start that raises because the heater refuses the temperature has cached the
  heater, overwritten \<open>original_target\<close>, read the clock and signalled the idle timeout;
  \<open>is_drying\<close>, \<open>target_temp\<close>, \<open>duration\<close>, \<open>start_time\<close>, \<open>end_time\<close>,
  \<open>timer_handler\<close>, the heaters, the timers and the console are as they were. These are
  the only ways the start raises.
\<close>

theorem start_failure_mutations:
  "(is_drying d \<longrightarrow> start_drying_checked accepts tmp dur d h = (Inl AlreadyActive, d, h)) \<and>
   (\<forall>e d' h'. start_drying_checked accepts tmp dur d h = (Inl e, d', h') \<longrightarrow>
      ((e = AlreadyActive \<or> e = HeaterNotFound (heater_name d)) \<and> d' = d \<and> h' = h) \<or>
      (e = TemperatureRefused tmp \<and>
       (\<exists>r. \<not> accepts r tmp \<and>
            d' = d\<lparr>heater := Some r, original_target := target (heater_objs h r)\<rparr> \<and>
            h' = (case idle_timeout h of
                    None \<Rightarrow> h\<lparr>clock_reads := Suc (clock_reads h)\<rparr>
                  | Some st \<Rightarrow> h\<lparr>clock_reads := Suc (clock_reads h),
                                   idle_timeout := Some ''Printing''\<rparr>)))) \<and>
   (\<forall>e d' h'. start_drying_checked accepts tmp dur d h = (Inl e, d', h') \<longrightarrow>
      is_drying d' = is_drying d \<and> target_temp d' = target_temp d \<and>
      duration d' = duration d \<and> start_time d' = start_time d \<and> end_time d' = end_time d \<and>
      timer_handler d' = timer_handler d \<and> heater_objs h' = heater_objs h \<and>
      timers h' = timers h \<and> responses h' = responses h)"
proof -
  have active: "start_drying_checked accepts tmp dur d h = (Inl AlreadyActive, d, h)"
    if "is_drying d"
    using that by (simp add: start_drying_checked_def)
  have fails: "((e = AlreadyActive \<or> e = HeaterNotFound (heater_name d)) \<and> d' = d \<and> h' = h) \<or>
      (e = TemperatureRefused tmp \<and>
       (\<exists>r. \<not> accepts r tmp \<and>
            d' = d\<lparr>heater := Some r, original_target := target (heater_objs h r)\<rparr> \<and>
            h' = (case idle_timeout h of
                    None \<Rightarrow> h\<lparr>clock_reads := Suc (clock_reads h)\<rparr>
                  | Some st \<Rightarrow> h\<lparr>clock_reads := Suc (clock_reads h),
                                   idle_timeout := Some ''Printing''\<rparr>)))"
    if f: "start_drying_checked accepts tmp dur d h = (Inl e, d', h')" for e d' h'
  proof (cases "is_drying d")
    case True
    from f active[OF True] have "e = AlreadyActive" "d' = d" "h' = h" by auto
    then show ?thesis by simp
  next
    case nd: False
    obtain x d1 h1 where gh: "get_heater d h = (x, d1, h1)" by (cases "get_heater d h")
    show ?thesis
    proof (cases x)
      case (Inl e0)
      with gh have g: "get_heater d h = (Inl (HeaterNotFound (heater_name d)), d, h)"
        by (auto simp: get_heater_def split: option.splits)
      from nd g have "start_drying_checked accepts tmp dur d h =
                        (Inl (HeaterNotFound (heater_name d)), d, h)"
        by (simp add: start_drying_checked_def)
      with f have "e = HeaterNotFound (heater_name d)" "d' = d" "h' = h" by auto
      then show ?thesis by simp
    next
      case (Inr r)
      with gh have g: "get_heater d h = (Inr r, d1, h1)" by simp
      show ?thesis
      proof (cases "accepts r tmp")
        case True
        from start_drying_checked_started[where accepts = accepts and tmp = tmp and dur = dur,
               OF nd g True] f
        have False by simp
        then show ?thesis ..
      next
        case False
        from start_drying_checked_refused[where accepts = accepts and tmp = tmp and dur = dur,
               OF nd g False] f
        have "e = TemperatureRefused tmp"
          and "d' = d\<lparr>heater := Some r, original_target := target (heater_objs h r)\<rparr>"
          and "h' = (case idle_timeout h of
                      None \<Rightarrow> h\<lparr>clock_reads := Suc (clock_reads h)\<rparr>
                    | Some st \<Rightarrow> h\<lparr>clock_reads := Suc (clock_reads h),
                                     idle_timeout := Some ''Printing''\<rparr>)"
          by auto
        with False show ?thesis by blast
      qed
    qed
  qed
  have kept: "is_drying d' = is_drying d \<and> target_temp d' = target_temp d \<and>
      duration d' = duration d \<and> start_time d' = start_time d \<and> end_time d' = end_time d \<and>
      timer_handler d' = timer_handler d \<and> heater_objs h' = heater_objs h \<and>
      timers h' = timers h \<and> responses h' = responses h"
    if f: "start_drying_checked accepts tmp dur d h = (Inl e, d', h')" for e d' h'
  proof -
    from fails[OF f] consider
        (same) "d' = d" "h' = h"
      | (refused) r where
          "d' = d\<lparr>heater := Some r, original_target := target (heater_objs h r)\<rparr>"
          "h' = (case idle_timeout h of
                   None \<Rightarrow> h\<lparr>clock_reads := Suc (clock_reads h)\<rparr>
                 | Some st \<Rightarrow> h\<lparr>clock_reads := Suc (clock_reads h),
                                  idle_timeout := Some ''Printing''\<rparr>)"
      by blast
    then show ?thesis
    proof cases
      case same
      then show ?thesis by simp
    next
      case refused
      then show ?thesis by (cases "idle_timeout h") simp_all
    qed
  qed
  show ?thesis
  proof (intro conjI allI impI)
    assume "is_drying d"
    then show "start_drying_checked accepts tmp dur d h = (Inl AlreadyActive, d, h)"
      by (rule active)
  next
    fix e d' h'
    assume "start_drying_checked accepts tmp dur d h = (Inl e, d', h')"
    then show "((e = AlreadyActive \<or> e = HeaterNotFound (heater_name d)) \<and> d' = d \<and> h' = h) \<or>
      (e = TemperatureRefused tmp \<and>
       (\<exists>r. \<not> accepts r tmp \<and>
            d' = d\<lparr>heater := Some r, original_target := target (heater_objs h r)\<rparr> \<and>
            h' = (case idle_timeout h of
                    None \<Rightarrow> h\<lparr>clock_reads := Suc (clock_reads h)\<rparr>
                  | Some st \<Rightarrow> h\<lparr>clock_reads := Suc (clock_reads h),
                                   idle_timeout := Some ''Printing''\<rparr>)))"
      by (rule fails)
  next
    fix e d' h'
    assume f: "start_drying_checked accepts tmp dur d h = (Inl e, d', h')"
    from kept[OF f]
    show "is_drying d' = is_drying d" and "target_temp d' = target_temp d"
      and "duration d' = duration d" and "start_time d' = start_time d"
      and "end_time d' = end_time d" and "timer_handler d' = timer_handler d"
      and "heater_objs h' = heater_objs h" and "timers h' = timers h"
      and "responses h' = responses h"
      by simp_all
  qed
qed

theorem start_failure_mutations_witness:
  "is_drying drying_dryer \<and>
   start_drying_checked (within_limits 0 100) 60 7200 drying_dryer example_host =
     (Inl AlreadyActive, drying_dryer, example_host) \<and>
   fst (start_drying_checked (within_limits 0 100) 500 3600 idle_dryer example_host) =
     Inl (TemperatureRefused 500) \<and>
   \<not> is_drying (fst (snd (start_drying_checked (within_limits 0 100) 500 3600 idle_dryer example_host))) \<and>
   timer_handler (fst (snd (start_drying_checked (within_limits 0 100) 500 3600 idle_dryer example_host))) = None \<and>
   heater_objs (snd (snd (start_drying_checked (within_limits 0 100) 500 3600 idle_dryer example_host))) =
     heater_objs example_host"
proof -
  have a: "is_drying drying_dryer" by (simp add: drying_dryer_def started_eq)
  have i: "\<not> is_drying idle_dryer" "timer_handler idle_dryer = None"
    by (simp_all add: idle_dryer_eq)
  have g: "get_heater idle_dryer example_host = (Inr 0, idle_dryer\<lparr>heater := Some 0\<rparr>, example_host)"
    by (rule get_heater_lookup) (simp_all add: idle_dryer_eq example_host_def)
  have n: "\<not> within_limits 0 100 0 500" by (simp add: within_limits_def)
  obtain d' h' where r:
    "start_drying_checked (within_limits 0 100) 500 3600 idle_dryer example_host =
       (Inl (TemperatureRefused 500), d', h')"
    using start_drying_checked_refused[where accepts = "within_limits 0 100" and tmp = 500
            and dur = 3600, OF i(1) g n]
    by simp
  note t1 = start_failure_mutations[of drying_dryer "within_limits 0 100" 60 7200 example_host]
  note t2 = start_failure_mutations[of idle_dryer "within_limits 0 100" 500 3600 example_host]
  from conjunct1[OF t1] a
  have w1: "start_drying_checked (within_limits 0 100) 60 7200 drying_dryer example_host =
              (Inl AlreadyActive, drying_dryer, example_host)"
    by (rule mp)
  from conjunct2[OF conjunct2[OF t2], rule_format, OF r]
  have k: "is_drying d' = is_drying idle_dryer" "timer_handler d' = timer_handler idle_dryer"
    "heater_objs h' = heater_objs example_host"
    by simp_all
  show ?thesis
    unfolding r w1 using a i k by simp
qed

text \<open>
  The claim C2 as written (a failing start performs no mutation at all) fails on a heater
  with limits 0 to 100 for \<open>_start_drying(500, 3600)\<close> from the idle example state: the
  start raises, and the heater has been cached, \<open>original_target\<close> is 5 instead of 0, and
  the idle timeout has gone from "Ready" to "Printing".
\<close>

theorem start_refused_after_writes:
  "start_drying_checked (within_limits 0 100) 500 3600 idle_dryer example_host =
     (Inl (TemperatureRefused 500),
      idle_dryer\<lparr>heater := Some 0, original_target := 5\<rparr>,
      example_host\<lparr>clock_reads := 1, idle_timeout := Some ''Printing''\<rparr>) \<and>
   heater idle_dryer = None \<and> original_target idle_dryer = 0 \<and>
   idle_timeout example_host = Some ''Ready'' \<and>
   idle_dryer\<lparr>heater := Some 0, original_target := 5\<rparr> \<noteq> idle_dryer \<and>
   example_host\<lparr>clock_reads := 1, idle_timeout := Some ''Printing''\<rparr> \<noteq> example_host"
proof -
  have i: "\<not> is_drying idle_dryer" "heater idle_dryer = None" "original_target idle_dryer = 0"
    by (simp_all add: idle_dryer_eq)
  have g: "get_heater idle_dryer example_host = (Inr 0, idle_dryer\<lparr>heater := Some 0\<rparr>, example_host)"
    by (rule get_heater_lookup) (simp_all add: idle_dryer_eq example_host_def)
  have n: "\<not> within_limits 0 100 0 500" by (simp add: within_limits_def)
  have e: "idle_timeout example_host = Some ''Ready''" "clock_reads example_host = 0"
    "target (heater_objs example_host 0) = 5"
    by (simp_all add: example_host_def)
  have r: "start_drying_checked (within_limits 0 100) 500 3600 idle_dryer example_host =
     (Inl (TemperatureRefused 500),
      idle_dryer\<lparr>heater := Some 0, original_target := 5\<rparr>,
      example_host\<lparr>clock_reads := 1, idle_timeout := Some ''Printing''\<rparr>)"
    using start_drying_checked_refused[where accepts = "within_limits 0 100" and tmp = 500
            and dur = 3600, OF i(1) g n]
    by (simp add: e)
  have n1: "idle_dryer\<lparr>heater := Some 0, original_target := 5\<rparr> \<noteq> idle_dryer"
  proof
    assume "idle_dryer\<lparr>heater := Some 0, original_target := 5\<rparr> = idle_dryer"
    then have "heater (idle_dryer\<lparr>heater := Some 0, original_target := 5\<rparr>) = heater idle_dryer"
      by simp
    with i(2) show False by simp
  qed
  have n2: "example_host\<lparr>clock_reads := 1, idle_timeout := Some ''Printing''\<rparr> \<noteq> example_host"
  proof
    assume "example_host\<lparr>clock_reads := 1, idle_timeout := Some ''Printing''\<rparr> = example_host"
    then have "idle_timeout (example_host\<lparr>clock_reads := 1, idle_timeout := Some ''Printing''\<rparr>) =
               idle_timeout example_host"
      by simp
    with e(1) show False by simp
  qed
  from r i(2,3) e(1) n1 n2 show ?thesis by simp
qed

text \<open>
  C3. In every reachable state, \<open>timer_handler\<close> is set if and only if \<open>is_drying\<close> is
  true.
\<close>

theorem timer_iff_drying: "reachable d \<Longrightarrow> (timer_handler d \<noteq> None) = is_drying d"
  by (drule reachable_cycle_inv) (simp add: cycle_inv_def)

theorem timer_iff_drying_witness:
  "reachable drying_dryer \<and> timer_handler drying_dryer = Some 0 \<and> is_drying drying_dryer \<and>
   reachable idle_dryer \<and> timer_handler idle_dryer = None \<and> \<not> is_drying idle_dryer"
proof -
  have a: "timer_handler drying_dryer = Some 0" "is_drying drying_dryer"
    by (simp_all add: drying_dryer_def started_eq)
  have b: "timer_handler idle_dryer = None" "\<not> is_drying idle_dryer"
    by (simp_all add: idle_dryer_eq)
  from timer_iff_drying[OF reachable_drying_dryer] timer_iff_drying[OF reachable_idle_dryer]
    a b reachable_drying_dryer reachable_idle_dryer
  show ?thesis by simp
qed

text \<open>
  C4. From a state with \<open>is_drying\<close> false whose heater can be resolved, for every
  temperature and duration, start succeeds, the stop that follows succeeds, the heater's
  target is again the value it had before the start, and the controller is idle with
  \<open>target_temp\<close>, \<open>duration\<close>, \<open>start_time\<close>, \<open>end_time\<close> zero and no timer; it keeps the
  resolved heater and the captured target.
\<close>

theorem start_stop_round_trip:
  assumes "\<not> is_drying d"
    and "heater d = Some r \<or> (heater d = None \<and> lookup_heater h (heater_name d) = Some r)"
  shows "\<exists>d1 h1 h2.
           start_drying tmp dur d h = (Inr (), d1, h1) \<and>
           stop_drying d1 h1 =
             (Inr (),
              d\<lparr>heater := Some r, original_target := target (heater_objs h r),
                timer_handler := None, is_drying := False, target_temp := 0, duration := 0,
                start_time := 0, end_time := 0\<rparr>,
              h2) \<and>
           target (heater_objs h2 r) = target (heater_objs h r) \<and>
           timers h2 (next_timer h) = None"
proof -
  from assms(2) have gh: "get_heater d h = (Inr r, d\<lparr>heater := Some r\<rparr>, h)"
    by (auto simp: get_heater_def)
  show ?thesis
    by (simp add: start_drying_ok[OF assms(1) gh] stop_drying_cached respond_info_def
          set_temp_def unregister_timer_def register_timer_def monotonic_def
          split: option.splits)
qed

theorem start_stop_round_trip_witness:
  "\<not> is_drying idle_dryer \<and> lookup_heater example_host (heater_name idle_dryer) = Some 0 \<and>
   (\<exists>d1 h1 d2 h2.
      start_drying 50 3600 idle_dryer example_host = (Inr (), d1, h1) \<and>
      stop_drying d1 h1 = (Inr (), d2, h2) \<and>
      target (heater_objs h2 0) = 5 \<and> \<not> is_drying d2 \<and> target_temp d2 = 0 \<and>
      duration d2 = 0 \<and> start_time d2 = 0 \<and> end_time d2 = 0)"
proof -
  have a: "\<not> is_drying idle_dryer" by (simp add: idle_dryer_eq)
  have b: "heater idle_dryer = Some 0 \<or>
           (heater idle_dryer = None \<and> lookup_heater example_host (heater_name idle_dryer) = Some 0)"
    by (simp add: idle_dryer_eq example_host_def)
  have c: "target (heater_objs example_host 0) = 5"
    and l: "lookup_heater example_host (heater_name idle_dryer) = Some 0"
    by (simp_all add: idle_dryer_eq example_host_def)
  from start_stop_round_trip[OF a b, of 50 3600] obtain d1 h1 h2 where
    "start_drying 50 3600 idle_dryer example_host = (Inr (), d1, h1)"
    "stop_drying d1 h1 =
       (Inr (),
        idle_dryer\<lparr>heater := Some 0, original_target := target (heater_objs example_host 0),
          timer_handler := None, is_drying := False, target_temp := 0, duration := 0,
          start_time := 0, end_time := 0\<rparr>, h2)"
    "target (heater_objs h2 0) = target (heater_objs example_host 0)"
    by blast
  with a l c show ?thesis by auto
qed

text \<open>
  C5. A call of the timer callback in a state with \<open>is_drying\<close> false returns \<open>NEVER\<close>
  and changes neither the controller nor the host (no heater write, no message); in
  particular this is so in the state left by a stop that returned, on any host.
\<close>

theorem stale_tick_noop:
  "(\<not> is_drying d \<longrightarrow> timer_callback d h now = (Inr NEVER, d, h)) \<and>
   (\<forall>d' h' h''. stop_drying d h = (Inr (), d', h') \<longrightarrow>
        timer_callback d' h'' now = (Inr NEVER, d', h''))"
proof (intro conjI allI impI)
  assume "\<not> is_drying d"
  then show "timer_callback d h now = (Inr NEVER, d, h)"
    by (simp add: timer_callback_def)
next
  fix d' h' h''
  assume "stop_drying d h = (Inr (), d', h')"
  then have "\<not> is_drying d'"
    by (auto simp: stop_drying_def Let_def split: if_splits prod.splits sum.splits)
  then show "timer_callback d' h'' now = (Inr NEVER, d', h'')"
    by (simp add: timer_callback_def)
qed

theorem stale_tick_noop_witness:
  "\<not> is_drying idle_dryer \<and>
   timer_callback idle_dryer example_host 2000 = (Inr NEVER, idle_dryer, example_host) \<and>
   fst (stop_drying drying_dryer example_host) = Inr () \<and>
   timer_callback (fst (snd (stop_drying drying_dryer example_host))) example_host 2000 =
     (Inr NEVER, fst (snd (stop_drying drying_dryer example_host)), example_host)"
proof -
  have a: "\<not> is_drying idle_dryer" by (simp add: idle_dryer_eq)
  have "is_drying drying_dryer" and "heater drying_dryer = Some 0"
    by (simp_all add: drying_dryer_def started_eq)
  then have b: "fst (stop_drying drying_dryer example_host) = Inr ()"
    by (simp add: stop_drying_cached)
  from stale_tick_noop[of idle_dryer example_host 2000]
       stale_tick_noop[of drying_dryer example_host 2000] a b
  show ?thesis
    by (metis prod.collapse)
qed

text \<open>
  C6, as the code has it. \<open>get_status\<close> leaves the controller as it is. In every
  reachable state with \<open>is_drying\<close> false the result is exactly
  \<open>{is_drying: False, target_temp: 0}\<close>, with none of \<open>duration\<close>, \<open>elapsed\<close>,
  \<open>remaining\<close>, \<open>progress\<close>. While drying, \<open>progress\<close> is \<open>elapsed / duration * 100\<close>
  when \<open>duration > 0\<close> and \<open>0\<close> otherwise, that is for a zero and for a negative
  duration.
\<close>

theorem get_status_result:
  "snd (get_status d now) = d \<and>
   (reachable d \<and> \<not> is_drying d \<longrightarrow>
      fst (get_status d now) = [''is_drying'' \<mapsto> PyBool False, ''target_temp'' \<mapsto> PyFloat 0]) \<and>
   (is_drying d \<longrightarrow>
      fst (get_status d now) ''progress'' =
        Some (PyFloat (if duration d > 0 then (now - start_time d) / duration d * 100 else 0)))"
proof (intro conjI impI)
  show "snd (get_status d now) = d" by (rule get_status_pure)
next
  assume a: "reachable d \<and> \<not> is_drying d"
  then have "cycle_inv d" by (simp add: reachable_cycle_inv)
  with a have "target_temp d = 0" by (simp add: cycle_inv_def)
  with a show "fst (get_status d now) =
      [''is_drying'' \<mapsto> PyBool False, ''target_temp'' \<mapsto> PyFloat 0]"
    by (simp add: get_status_def)
next
  assume "is_drying d"
  then show "fst (get_status d now) ''progress'' =
        Some (PyFloat (if duration d > 0 then (now - start_time d) / duration d * 100 else 0))"
    by (simp add: get_status_def Let_def)
qed

theorem get_status_result_witness:
  "reachable idle_dryer \<and> \<not> is_drying idle_dryer \<and>
   fst (get_status idle_dryer 2000) = [''is_drying'' \<mapsto> PyBool False, ''target_temp'' \<mapsto> PyFloat 0] \<and>
   fst (get_status idle_dryer 2000) ''duration'' = None \<and>
   fst (get_status idle_dryer 2000) ''elapsed'' = None \<and>
   fst (get_status idle_dryer 2000) ''remaining'' = None \<and>
   fst (get_status idle_dryer 2000) ''progress'' = None \<and>
   is_drying drying_dryer \<and>
   fst (get_status drying_dryer 1900) ''progress'' = Some (PyFloat 25)"
proof -
  have a: "\<not> is_drying idle_dryer" by (simp add: idle_dryer_eq)
  have b: "is_drying drying_dryer" "duration drying_dryer = 3600" "start_time drying_dryer = 1000"
    by (simp_all add: drying_dryer_def started_eq)
  from get_status_result[of idle_dryer 2000] get_status_result[of drying_dryer 1900]
    a b reachable_idle_dryer
  show ?thesis by simp
qed

text \<open>
  The claim C6 as written (while drying, \<open>progress\<close> is \<open>elapsed / duration * 100\<close>, and
  \<open>0\<close> when \<open>duration\<close> is \<open>0\<close>) fails after \<open>START_FILAMENT_DRYING TEMP=50 DURATION=-1\<close>:
  the cycle is active until the first tick, its duration is \<open>-3600\<close>, and one second
  after the start \<open>get_status\<close> reports progress \<open>0\<close>, not \<open>1 / (-3600) * 100\<close>.
\<close>

theorem get_status_negative_duration:
  "reachable negative_dryer \<and> is_drying negative_dryer \<and> duration negative_dryer = - 3600 \<and>
   fst (get_status negative_dryer 1001) ''progress'' = Some (PyFloat 0) \<and>
   fst (get_status negative_dryer 1001) ''progress'' \<noteq>
     Some (PyFloat (if duration negative_dryer = 0 then 0
                    else (1001 - start_time negative_dryer) / duration negative_dryer * 100))"
  by (simp add: reachable_negative_dryer)
     (simp add: negative_dryer_def started_eq get_status_def)

text \<open>
  C7. Whenever \<open>PRESET\<close> names a registered preset (case-insensitively), the start command
  gives the same outcome, controller and host as the start command with \<open>TEMP\<close> that
  preset's temperature and \<open>DURATION\<close> its duration in hours, whatever \<open>TEMP\<close> and
  \<open>DURATION\<close> accompany the preset. With \<open>presets: petg\<close>, \<open>preset_petg_temp: 70\<close> and
  \<open>preset_petg_duration: 4\<close> in the configuration, \<open>PRESET=petg\<close> is \<open>TEMP=70 DURATION=4\<close>.
\<close>

theorem preset_start_equals_manual:
  "(\<forall>p s. p \<noteq> [] \<and> map_of (presets d) (str_lower p) = Some s \<longrightarrow>
      cmd_START_FILAMENT_DRYING \<lparr>PRESET = Some p, TEMP = t, DURATION = du\<rparr> d h =
      cmd_START_FILAMENT_DRYING
        \<lparr>PRESET = None, TEMP = Some (temp s), DURATION = Some (preset_duration s / 3600)\<rparr> d h) \<and>
   (get cfg ''presets'' = Some ''petg'' \<and> getfloat cfg ''preset_petg_temp'' = Some 70 \<and>
    getfloat cfg ''preset_petg_duration'' = Some 4 \<and> presets d = presets (fst (init cfg hc)) \<longrightarrow>
      cmd_START_FILAMENT_DRYING \<lparr>PRESET = Some ''petg'', TEMP = t, DURATION = du\<rparr> d h =
      cmd_START_FILAMENT_DRYING \<lparr>PRESET = None, TEMP = Some 70, DURATION = Some 4\<rparr> d h)"
proof (intro conjI allI impI)
  fix p s
  assume "p \<noteq> [] \<and> map_of (presets d) (str_lower p) = Some s"
  then show "cmd_START_FILAMENT_DRYING \<lparr>PRESET = Some p, TEMP = t, DURATION = du\<rparr> d h =
      cmd_START_FILAMENT_DRYING
        \<lparr>PRESET = None, TEMP = Some (temp s), DURATION = Some (preset_duration s / 3600)\<rparr> d h"
    by (simp add: cmd_START_FILAMENT_DRYING_def)
next
  assume a: "get cfg ''presets'' = Some ''petg'' \<and> getfloat cfg ''preset_petg_temp'' = Some 70 \<and>
    getfloat cfg ''preset_petg_duration'' = Some 4 \<and> presets d = presets (fst (init cfg hc))"
  then have "presets d = [(''petg'', \<lparr>temp = 70, preset_duration = 14400\<rparr>)]"
    by (simp add: init_def load_preset_def str_strip_def is_space_def str_lower_def
          lower_char_def)
  then show "cmd_START_FILAMENT_DRYING \<lparr>PRESET = Some ''petg'', TEMP = t, DURATION = du\<rparr> d h =
      cmd_START_FILAMENT_DRYING \<lparr>PRESET = None, TEMP = Some 70, DURATION = Some 4\<rparr> d h"
    by (simp add: cmd_START_FILAMENT_DRYING_def str_lower_def lower_char_def)
qed

theorem preset_start_equals_manual_witness:
  "map_of (presets idle_dryer) (str_lower ''PLA'') = Some \<lparr>temp = 45, preset_duration = 21600\<rparr> \<and>
   cmd_START_FILAMENT_DRYING \<lparr>PRESET = Some ''PLA'', TEMP = None, DURATION = None\<rparr>
     idle_dryer example_host =
   cmd_START_FILAMENT_DRYING \<lparr>PRESET = None, TEMP = Some 45, DURATION = Some 6\<rparr>
     idle_dryer example_host \<and>
   get petg_config ''presets'' = Some ''petg'' \<and>
   getfloat petg_config ''preset_petg_temp'' = Some 70 \<and>
   getfloat petg_config ''preset_petg_duration'' = Some 4 \<and>
   cmd_START_FILAMENT_DRYING \<lparr>PRESET = Some ''petg'', TEMP = None, DURATION = None\<rparr>
     petg_dryer example_host =
   cmd_START_FILAMENT_DRYING \<lparr>PRESET = None, TEMP = Some 70, DURATION = Some 4\<rparr>
     petg_dryer example_host \<and>
   is_drying (fst (snd (cmd_START_FILAMENT_DRYING
      \<lparr>PRESET = Some ''petg'', TEMP = None, DURATION = None\<rparr> petg_dryer example_host)))"
proof -
  have a: "map_of (presets idle_dryer) (str_lower ''PLA'') = Some \<lparr>temp = 45, preset_duration = 21600\<rparr>"
    by (simp add: idle_dryer_eq str_lower_def lower_char_def char_of_def bit_0)
  have b: "get petg_config ''presets'' = Some ''petg''"
    "getfloat petg_config ''preset_petg_temp'' = Some 70"
    "getfloat petg_config ''preset_petg_duration'' = Some 4"
    by (simp_all add: petg_config_def)
  have c: "presets petg_dryer = presets (fst (init petg_config example_host))"
    by (simp add: petg_dryer_def)
  have e: "\<not> is_drying petg_dryer" "heater petg_dryer = None"
    "lookup_heater example_host (heater_name petg_dryer) = Some 0"
    by (simp_all add: petg_dryer_def init_def Let_def petg_config_def example_host_def)
  have f: "is_drying (fst (snd (cmd_START_FILAMENT_DRYING
      \<lparr>PRESET = None, TEMP = Some 70, DURATION = Some 4\<rparr> petg_dryer example_host)))"
    using e by (simp add: cmd_START_FILAMENT_DRYING_def start_drying_ok[OF _ get_heater_lookup])
  from preset_start_equals_manual[of idle_dryer None None example_host petg_config example_host]
    preset_start_equals_manual[of petg_dryer None None example_host petg_config example_host]
    a b c f
  show ?thesis by simp
qed

subsection \<open>Sorting the presets by name\<close>

lemma map_of_distinct_key:
  "distinct (map fst ps) \<Longrightarrow> x \<in> set ps \<Longrightarrow> map_of ps (fst x) = Some (snd x)"
  by (cases x) simp

lemma listing_by_keys:
  assumes "distinct (map fst ps)"
  shows "map (\<lambda>(nm, s). f nm s) (sort_key fst ps) =
         map (\<lambda>k. f k (the (map_of ps k))) (map fst (sort_key fst ps))"
proof -
  have "\<And>x. x \<in> set (sort_key fst ps) \<Longrightarrow>
          (case x of (nm, s) \<Rightarrow> f nm s) = f (fst x) (the (map_of ps (fst x)))"
    using assms by (auto simp: map_of_distinct_key)
  then show ?thesis by (simp add: comp_def cong: map_cong)
qed

lemma petg_dryer_presets:
  "presets petg_dryer = [(''petg'', \<lparr>temp = 70, preset_duration = 14400\<rparr>)]"
  by (simp add: petg_dryer_def petg_config_def init_def load_preset_def str_strip_def
        is_space_def str_lower_def lower_char_def)

text \<open>
  C8, as the code has it. \<open>LIST_DRYER_PRESETS\<close> answers "No presets configured" when no
  preset is registered. Otherwise it lists one entry per registered preset, in the order
  of the (lower-case) names under which the presets are registered, each entry being the
  name in upper case, the temperature and the duration in hours.
\<close>

theorem list_presets_entries:
  assumes "reachable d"
  shows "\<exists>ks. sorted ks \<and> distinct ks \<and> set ks = fst ` set (presets d) \<and>
           cmd_LIST_DRYER_PRESETS d h =
             (Inr (), d,
              respond_info
                (if ks = [] then NoPresets
                 else PresetListing
                        (map (\<lambda>k. (str_upper k, temp (the (map_of (presets d) k)),
                                    preset_duration (the (map_of (presets d) k)) / 3600)) ks))
                h)"
proof -
  from assms have dist: "distinct (map fst (presets d))"
    by (auto dest: reachable_cycle_inv simp: cycle_inv_def)
  let ?ks = "map fst (sort_key fst (presets d))"
  have 1: "sorted ?ks" by simp
  have 2: "distinct ?ks" using dist by (simp add: distinct_map)
  have 3: "set ?ks = fst ` set (presets d)" by simp
  have 4: "(?ks = []) = (presets d = [])"
    by (metis 3 image_is_empty set_empty)
  have 5: "cmd_LIST_DRYER_PRESETS d h =
             (Inr (), d,
              respond_info
                (if ?ks = [] then NoPresets
                 else PresetListing
                        (map (\<lambda>k. (str_upper k, temp (the (map_of (presets d) k)),
                                    preset_duration (the (map_of (presets d) k)) / 3600)) ?ks))
                h)"
    unfolding 4
    by (simp add: cmd_LIST_DRYER_PRESETS_def Let_def
          listing_by_keys[OF dist, of "\<lambda>nm s. (str_upper nm, temp s, preset_duration s / 3600)"])
  from 1 2 3 5 show ?thesis by blast
qed

theorem list_presets_entries_witness:
  "reachable idle_dryer \<and>
   (\<exists>ks. sorted ks \<and> distinct ks \<and> set ks = fst ` set (presets idle_dryer) \<and>
      cmd_LIST_DRYER_PRESETS idle_dryer example_host =
        (Inr (), idle_dryer,
         respond_info
           (if ks = [] then NoPresets
            else PresetListing
                   (map (\<lambda>k. (str_upper k, temp (the (map_of (presets idle_dryer) k)),
                               preset_duration (the (map_of (presets idle_dryer) k)) / 3600)) ks))
           example_host)) \<and>
   cmd_LIST_DRYER_PRESETS idle_dryer example_host =
     (Inr (), idle_dryer,
      respond_info (PresetListing [(''ABS'', 80, 2), (''PETG'', 70, 4), (''PLA'', 45, 6)])
        example_host)"
proof -
  have "cmd_LIST_DRYER_PRESETS idle_dryer example_host =
     (Inr (), idle_dryer,
      respond_info (PresetListing [(''ABS'', 80, 2), (''PETG'', 70, 4), (''PLA'', 45, 6)])
        example_host)"
    by (simp add: cmd_LIST_DRYER_PRESETS_def)
       (simp add: idle_dryer_eq less_eq_char_def less_char_def str_upper_def upper_char_def
          char_of_def bit_0)
  with list_presets_entries[OF reachable_idle_dryer, of example_host] reachable_idle_dryer
  show ?thesis by simp
qed

text \<open>
  The claim C8 as written gives the entry for \<open>preset_petg_temp: 70\<close>,
  \<open>preset_petg_duration: 4\<close> as \<open>("petg", 70.0, 4.0)\<close>; the listing names it \<open>PETG\<close>.
\<close>

theorem list_presets_petg_upper:
  "responses (snd (snd (cmd_LIST_DRYER_PRESETS petg_dryer example_host))) =
     [Respond_info (PresetListing [(''PETG'', 70, 4)])] \<and>
   responses (snd (snd (cmd_LIST_DRYER_PRESETS petg_dryer example_host))) \<noteq>
     [Respond_info (PresetListing [(''petg'', 70, 4)])]"
  by (simp add: cmd_LIST_DRYER_PRESETS_def petg_dryer_presets respond_info_def example_host_def
        str_upper_def upper_char_def char_of_def bit_0)




text \<open>
  C10. With an active cycle, \<open>DRYER_STATUS\<close> divides by \<open>duration\<close> unguarded: it raises
  ZeroDivisionError exactly when \<open>duration\<close> is \<open>0\<close>, where \<open>get_status\<close> reports
  progress \<open>0\<close>; with a positive duration (and the heater resolved) it reports
  \<open>elapsed / duration * 100\<close>. \<open>_start_drying\<close> accepts any duration, zero included, so
  the command can meet a zero duration.
\<close>

theorem dryer_status_division:
  "(is_drying d \<and> duration d = 0 \<longrightarrow>
      fst (cmd_DRYER_STATUS d h) = Inl ZeroDivisionError \<and>
      fst (get_status d now) ''progress'' = Some (PyFloat 0)) \<and>
   (is_drying d \<and> duration d \<noteq> 0 \<longrightarrow> fst (cmd_DRYER_STATUS d h) \<noteq> Inl ZeroDivisionError) \<and>
   (is_drying d \<and> 0 < duration d \<and> heater d = Some r \<longrightarrow>
      cmd_DRYER_STATUS d h =
        (Inr (), d,
         respond_info
           (StatusActive (target_temp d) (temperature (heater_objs h r)) (duration d / 3600)
              ((clock h (clock_reads h) - start_time d) / 3600)
              ((end_time d - clock h (clock_reads h)) / 3600)
              ((clock h (clock_reads h) - start_time d) / duration d * 100))
           (snd (monotonic h)))) \<and>
   (\<not> is_drying d \<and> (heater d \<noteq> None \<or> lookup_heater h (heater_name d) \<noteq> None) \<longrightarrow>
      fst (start_drying tmp dur d h) = Inr () \<and>
      is_drying (fst (snd (start_drying tmp dur d h))) \<and>
      duration (fst (snd (start_drying tmp dur d h))) = dur)"
proof (intro conjI impI)
  assume "is_drying d \<and> duration d = 0"
  then show "fst (cmd_DRYER_STATUS d h) = Inl ZeroDivisionError"
    and "fst (get_status d now) ''progress'' = Some (PyFloat 0)"
    by (simp_all add: cmd_DRYER_STATUS_def get_status_def Let_def split: prod.splits)
next
  assume "is_drying d \<and> duration d \<noteq> 0"
  then show "fst (cmd_DRYER_STATUS d h) \<noteq> Inl ZeroDivisionError"
    by (auto simp: cmd_DRYER_STATUS_def Let_def get_heater_def
             split: prod.splits sum.splits option.splits)
next
  assume "is_drying d \<and> 0 < duration d \<and> heater d = Some r"
  then show "cmd_DRYER_STATUS d h =
        (Inr (), d,
         respond_info
           (StatusActive (target_temp d) (temperature (heater_objs h r)) (duration d / 3600)
              ((clock h (clock_reads h) - start_time d) / 3600)
              ((end_time d - clock h (clock_reads h)) / 3600)
              ((clock h (clock_reads h) - start_time d) / duration d * 100))
           (snd (monotonic h)))"
    by (simp add: cmd_DRYER_STATUS_def Let_def get_heater_cached monotonic_def)
next
  assume a: "\<not> is_drying d \<and> (heater d \<noteq> None \<or> lookup_heater h (heater_name d) \<noteq> None)"
  then obtain r where "get_heater d h = (Inr r, d\<lparr>heater := Some r\<rparr>, h)"
    by (cases "heater d") (auto simp: get_heater_def)
  with a show "fst (start_drying tmp dur d h) = Inr ()"
    and "is_drying (fst (snd (start_drying tmp dur d h)))"
    and "duration (fst (snd (start_drying tmp dur d h))) = dur"
    by (simp_all add: start_drying_ok)
qed

theorem dryer_status_division_witness:
  "is_drying zero_dryer \<and> duration zero_dryer = 0 \<and>
   fst (cmd_DRYER_STATUS zero_dryer example_host) = Inl ZeroDivisionError \<and>
   fst (get_status zero_dryer 1000) ''progress'' = Some (PyFloat 0) \<and>
   is_drying drying_dryer \<and> 0 < duration drying_dryer \<and> heater drying_dryer = Some 0 \<and>
   fst (cmd_DRYER_STATUS drying_dryer example_host) = Inr () \<and>
   \<not> is_drying idle_dryer \<and> lookup_heater example_host (heater_name idle_dryer) \<noteq> None \<and>
   fst (start_drying 50 0 idle_dryer example_host) = Inr () \<and>
   duration (fst (snd (start_drying 50 0 idle_dryer example_host))) = 0"
proof -
  have a: "is_drying zero_dryer" "duration zero_dryer = 0"
    by (simp_all add: zero_dryer_def started_eq)
  have b: "is_drying drying_dryer" "0 < duration drying_dryer" "heater drying_dryer = Some 0"
    by (simp_all add: drying_dryer_def started_eq)
  have c: "\<not> is_drying idle_dryer" "lookup_heater example_host (heater_name idle_dryer) \<noteq> None"
    by (simp_all add: idle_dryer_eq example_host_def)
  from dryer_status_division[of zero_dryer example_host 1000 0 50 0]
    dryer_status_division[of drying_dryer example_host 1000 0 50 0]
    dryer_status_division[of idle_dryer example_host 1000 0 50 0] a b c
  show ?thesis by simp
qed

end
